theory Spec2Isabelle
  imports Complex_Main
begin

section \<open>Scalars, vectors and matrices\<close>

text \<open>
  The C++ sources compute on \<^verbatim>\<open>double\<close>. \<^verbatim>\<open>OnlineRNNet.h\<close> itself only stores, copies and
  zero-fills doubles, and the operations it declares without a body are given by the
  specification as exact sums; for the network a \<^verbatim>\<open>double\<close> is therefore idealised as a
  \<^typ>\<open>real\<close>, and rounding, infinities and NaN are outside that part of the model.
  \<^verbatim>\<open>MeanModel.h\<close> compares, adds and subtracts doubles; its members are doubles with their
  rounding (section ``Double-precision arithmetic''). A \<^verbatim>\<open>RealVector\<close> is the list of its
  entries and a \<^verbatim>\<open>RealMatrix\<close> is the list of its rows. A \<^verbatim>\<open>std::size_t\<close> is a natural
  number; the one subtraction the sources perform on it is written with its 64-bit
  wrap-around.
\<close>

type_synonym RealVector = "real list"
type_synonym RealMatrix = "real list list"

text \<open>
  \<^verbatim>\<open>SHARKEXCEPTION(message)\<close> carries its message. The linear-algebra layer is used by
  the two headers but defined elsewhere; where the headers rely on its checks (the shapes
  of the operands of an assignment, an index into a container) the model fails with
  \<open>SizeMismatch\<close> or \<open>OutOfRange\<close> instead of returning an unspecified value.
  \<open>NoGradientTracking\<close> is the configuration error of the gradient contraction.
\<close>

datatype error = Exception string | SizeMismatch | OutOfRange | NoGradientTracking

text \<open>What a call of a mutating member function did: it returned, or it threw.\<close>

datatype outcome = Returned | Thrown error

text \<open>\<^verbatim>\<open>RealVector(n, 0.0)\<close> and \<^verbatim>\<open>RealMatrix(rows, columns, 0.0)\<close>.\<close>

definition zeroVector :: "nat \<Rightarrow> RealVector" where
  "zeroVector n = replicate n 0"

definition zeroMatrix :: "nat \<Rightarrow> nat \<Rightarrow> RealMatrix" where
  "zeroMatrix rows columns = replicate rows (zeroVector columns)"

text \<open>
  \<^verbatim>\<open>v.resize(n)\<close>, as \<^verbatim>\<open>std::vector\<close> resizes: the first \<open>n\<close> entries are kept and a
  longer vector is filled up with zeros. On a vector that already has \<open>n\<close> entries it
  does nothing.
\<close>

definition resize :: "RealVector \<Rightarrow> nat \<Rightarrow> RealVector" where
  "resize v n = take n v @ replicate (n - length v) 0"

text \<open>\<^verbatim>\<open>a - b\<close> on \<^verbatim>\<open>std::size_t\<close> (64 bits): below zero it wraps.\<close>

definition size_t_minus :: "nat \<Rightarrow> nat \<Rightarrow> nat" where
  "size_t_minus a b = (if b \<le> a then a - b else a + 2 ^ 64 - b)"

text \<open>
  \<^verbatim>\<open>subrange(v, start, stop) = w\<close>: the entries \<open>start \<dots> stop - 1\<close> of \<open>v\<close> are
  overwritten with \<open>w\<close>. The range has to lie inside \<open>v\<close> and \<open>w\<close> has to have its length.
\<close>

definition assign_subrange :: "RealVector \<Rightarrow> nat \<Rightarrow> nat \<Rightarrow> RealVector \<Rightarrow> error + RealVector" where
  "assign_subrange v start stop w =
     (if start \<le> stop \<and> stop \<le> length v \<and> length w = stop - start
      then Inr (take start v @ w @ drop stop v)
      else Inl SizeMismatch)"

section \<open>The topology queried by OnlineRNNet\<close>

text \<open>
  \<^verbatim>\<open>OnlineRNNet.h\<close> includes \<^verbatim>\<open>RecurrentStructure\<close> and reads five counts of it through
  \<^verbatim>\<open>mpe_structure\<close>: \<^verbatim>\<open>inputs()\<close>, \<^verbatim>\<open>outputs()\<close>, \<^verbatim>\<open>numberOfNeurons()\<close>,
  \<^verbatim>\<open>numberOfUnits()\<close> and \<^verbatim>\<open>parameters()\<close>. The class is declared elsewhere, so the counts
  are parameters of the model: a structure is the record of what these queries return.
\<close>

record RecurrentStructure =
  inputs :: nat
  outputs :: nat
  numberOfNeurons :: nat
  numberOfUnits :: nat
  parameters :: nat

section \<open>OnlineRNNet\<close>

record InternalState =
  activation :: RealVector
  lastActivation :: RealVector
  unitGradient :: RealMatrix

record OnlineRNNet =
  mpe_structure :: RecurrentStructure
  m_computeGradient :: bool

text \<open>The constructor of \<^verbatim>\<open>InternalState\<close>: it reads the structure and nothing else.\<close>

definition InternalState_ctor :: "RecurrentStructure \<Rightarrow> InternalState" where
  "InternalState_ctor structure =
     \<lparr> activation = zeroVector (numberOfUnits structure),
       lastActivation = zeroVector (numberOfUnits structure),
       unitGradient = zeroMatrix (parameters structure) (numberOfNeurons structure) \<rparr>"

definition createState :: "OnlineRNNet \<Rightarrow> InternalState" where
  "createState net = InternalState_ctor (mpe_structure net)"

definition inputSize :: "OnlineRNNet \<Rightarrow> nat" where
  "inputSize net = inputs (mpe_structure net)"

definition outputSize :: "OnlineRNNet \<Rightarrow> nat" where
  "outputSize net = outputs (mpe_structure net)"

definition numberOfParameters :: "OnlineRNNet \<Rightarrow> nat" where
  "numberOfParameters net = parameters (mpe_structure net)"

text \<open>
  The overload of \<^verbatim>\<open>eval\<close> without a state object: its body is one \<^verbatim>\<open>throw\<close>. The result
  is the error, or the output matrix the caller would read.
\<close>

definition eval_without_state :: "OnlineRNNet \<Rightarrow> RealMatrix \<Rightarrow> RealMatrix \<Rightarrow> error + RealMatrix" where
  "eval_without_state net pattern output =
     Inl (Exception ''[OnlineRNNet::eval] Eval can not be called without state object'')"

text \<open>
  \<^verbatim>\<open>setOutputActivation\<close>: resize the activation to the number of units, then assign the
  given vector to the last \<^verbatim>\<open>outputSize()\<close> units.
\<close>

definition setOutputActivation :: "OnlineRNNet \<Rightarrow> InternalState \<Rightarrow> RealVector \<Rightarrow> error + InternalState" where
  "setOutputActivation net s act =
     (let n = numberOfUnits (mpe_structure net);
          resized = resize (activation s) n
      in case assign_subrange resized (size_t_minus n (outputSize net)) n act of
           Inl e \<Rightarrow> Inl e
         | Inr a \<Rightarrow> Inr (s\<lparr>activation := a\<rparr>))"

section \<open>Double-precision arithmetic\<close>

text \<open>
  A \<^verbatim>\<open>double\<close> (IEEE 754 binary64) is a finite value, an infinity or NaN. A finite double
  is given by its value; the two zeros are one value (none of \<^verbatim>\<open>+\<close>, \<^verbatim>\<open>-\<close> and \<^verbatim>\<open>>\<close>
  tells them apart in what follows), and NaN has no payload.
\<close>

datatype double = Finite real | PlusInfinity | MinusInfinity | NaN

text \<open>
  The binade of a magnitude \<open>x\<close>: the exponent \<open>e\<close> with \<open>2\<^sup>e \<le> x < 2\<^sup>e\<^sup>+\<^sup>1\<close>, searched downwards
  from the largest exponent \<open>1023\<close> and not below the smallest normal exponent \<open>-1022\<close>
  (below it the doubles are subnormal and keep that spacing).
\<close>

fun findBinade :: "nat \<Rightarrow> int \<Rightarrow> real \<Rightarrow> int" where
  "findBinade 0 e x = e"
| "findBinade (Suc n) e x = (if 2 powi e \<le> x then e else findBinade n (e - 1) x)"

definition exponentOf :: "real \<Rightarrow> int" where
  "exponentOf r = findBinade 2045 1023 \<bar>r\<bar>"

text \<open>The nearest integer, a tie going to the even one.\<close>

definition roundHalfEven :: "real \<Rightarrow> int" where
  "roundHalfEven x =
     (let f = \<lfloor>x\<rfloor>
      in if x - of_int f < 1 / 2 then f
         else if 1 / 2 < x - of_int f then f + 1
         else if even f then f else f + 1)"

text \<open>
  The double that an exact result \<open>r\<close> is rounded to (round to nearest, ties to even): the
  doubles of the binade of \<open>r\<close> are the multiples of \<open>2\<^sup>e\<^sup>-\<^sup>5\<^sup>2\<close>, and a result that rounds to
  \<open>2\<^sup>1\<^sup>0\<^sup>2\<^sup>4\<close> or beyond overflows to an infinity. A real \<open>r\<close> is the value of a double when it
  is rounded to itself.
\<close>

definition roundToDouble :: "real \<Rightarrow> double" where
  "roundToDouble r =
     (let q = 2 powi (exponentOf r - 52);
          v = of_int (roundHalfEven (r / q)) * q
      in if 2 powi 1024 \<le> v then PlusInfinity
         else if v \<le> - (2 powi 1024) then MinusInfinity
         else Finite v)"

definition isDouble :: "real \<Rightarrow> bool" where
  "isDouble r \<longleftrightarrow> roundToDouble r = Finite r"

text \<open>
  \<^verbatim>\<open>a + b\<close>, \<^verbatim>\<open>-a\<close>, \<^verbatim>\<open>a - b\<close>, \<^verbatim>\<open>a < b\<close> and \<^verbatim>\<open>a <= b\<close> on doubles. The sum of two finite
  doubles is their exact sum, rounded; NaN is neither less than nor equal to anything.
\<close>

fun double_plus :: "double \<Rightarrow> double \<Rightarrow> double" where
  "double_plus (Finite x) (Finite y) = roundToDouble (x + y)"
| "double_plus NaN b = NaN"
| "double_plus a NaN = NaN"
| "double_plus PlusInfinity MinusInfinity = NaN"
| "double_plus MinusInfinity PlusInfinity = NaN"
| "double_plus PlusInfinity b = PlusInfinity"
| "double_plus a PlusInfinity = PlusInfinity"
| "double_plus MinusInfinity b = MinusInfinity"
| "double_plus a MinusInfinity = MinusInfinity"

fun double_uminus :: "double \<Rightarrow> double" where
  "double_uminus (Finite x) = Finite (- x)"
| "double_uminus PlusInfinity = MinusInfinity"
| "double_uminus MinusInfinity = PlusInfinity"
| "double_uminus NaN = NaN"

definition double_minus :: "double \<Rightarrow> double \<Rightarrow> double" where
  "double_minus a b = double_plus a (double_uminus b)"

fun double_less :: "double \<Rightarrow> double \<Rightarrow> bool" where
  "double_less (Finite x) (Finite y) = (x < y)"
| "double_less NaN b = False"
| "double_less a NaN = False"
| "double_less PlusInfinity b = False"
| "double_less a PlusInfinity = True"
| "double_less a MinusInfinity = False"
| "double_less MinusInfinity b = True"

definition double_less_eq :: "double \<Rightarrow> double \<Rightarrow> bool" where
  "double_less_eq a b \<longleftrightarrow> double_less a b \<or> (a = b \<and> a \<noteq> NaN)"

section \<open>MeanModel\<close>

text \<open>
  The ensemble is generic in its model type \<open>'m\<close>. The fields are the three members of
  the class; the weights and their sum are doubles.
\<close>

record 'm MeanModel =
  m_models :: "'m list"
  m_weight :: "double list"
  m_weightSum :: double

definition MeanModel_ctor :: "'m MeanModel" where
  "MeanModel_ctor = \<lparr> m_models = [], m_weight = [], m_weightSum = Finite 0 \<rparr>"

definition clearModels :: "'m MeanModel \<Rightarrow> outcome \<times> 'm MeanModel" where
  "clearModels mm = (Returned, mm\<lparr> m_models := [], m_weight := [], m_weightSum := Finite 0 \<rparr>)"

text \<open>
  \<^verbatim>\<open>SHARK_RUNTIME_CHECK(weight > 0, "Weights must be positive")\<close> throws before any member
  is touched; otherwise the three members are updated in the order of the source, the
  last by \<^verbatim>\<open>m_weightSum += weight\<close> on doubles.
\<close>

definition addModel :: "'m MeanModel \<Rightarrow> 'm \<Rightarrow> double \<Rightarrow> outcome \<times> 'm MeanModel" where
  "addModel mm model weight =
     (if double_less (Finite 0) weight
      then (Returned, mm\<lparr> m_models := m_models mm @ [model],
                           m_weight := m_weight mm @ [weight],
                           m_weightSum := double_plus (m_weightSum mm) weight \<rparr>)
      else (Thrown (Exception ''Weights must be positive''), mm))"

text \<open>
  \<^verbatim>\<open>setWeight\<close>, statement by statement: first
  \<^verbatim>\<open>m_weightSum=newWeight - m_weight[i];\<close> then \<^verbatim>\<open>m_weight[i] = newWeight;\<close>. An index
  outside the weight vector is a failed range check.
\<close>

definition setWeight :: "'m MeanModel \<Rightarrow> nat \<Rightarrow> double \<Rightarrow> outcome \<times> 'm MeanModel" where
  "setWeight mm i newWeight =
     (if i < length (m_weight mm)
      then (Returned, mm\<lparr> m_weightSum := double_minus newWeight (m_weight mm ! i),
                           m_weight := (m_weight mm)[i := newWeight] \<rparr>)
      else (Thrown OutOfRange, mm))"

definition numberOfModels :: "'m MeanModel \<Rightarrow> nat" where
  "numberOfModels mm = length (m_models mm)"

text \<open>A caller's calls, one after the other; a thrown exception leaves the object as it is.\<close>

datatype 'm call = AddModel 'm double | SetWeight nat double | ClearModels

fun perform :: "'m call \<Rightarrow> 'm MeanModel \<Rightarrow> outcome \<times> 'm MeanModel" where
  "perform (AddModel model weight) mm = addModel mm model weight"
| "perform (SetWeight i newWeight) mm = setWeight mm i newWeight"
| "perform ClearModels mm = clearModels mm"

fun performAll :: "'m call list \<Rightarrow> 'm MeanModel \<Rightarrow> 'm MeanModel" where
  "performAll [] mm = mm"
| "performAll (c # cs) mm = performAll cs (snd (perform c mm))"

text \<open>
  The total that \<^verbatim>\<open>m_weightSum\<close> is documented to hold (``Total sum of weights''): the
  weights added up in double arithmetic in the order of the vector, which is the order
  in which \<^verbatim>\<open>addModel\<close> accumulates them. And the calls that are \<^verbatim>\<open>setWeight\<close>.
\<close>

definition weightTotal :: "double list \<Rightarrow> double" where
  "weightTotal ws = foldl double_plus (Finite 0) ws"

definition weightSumInvariant :: "'m MeanModel \<Rightarrow> bool" where
  "weightSumInvariant mm \<longleftrightarrow> m_weightSum mm = weightTotal (m_weight mm)"

fun isSetWeight :: "'m call \<Rightarrow> bool" where
  "isSetWeight (SetWeight i newWeight) = True"
| "isSetWeight c = False"

section \<open>The operations of OnlineRNNet declared without a body\<close>

text \<open>
  \<^verbatim>\<open>OnlineRNNet.h\<close> declares \<^verbatim>\<open>eval\<close> (with a state) and \<^verbatim>\<open>weightedParameterDerivative\<close>
  and gives neither a body. Each definition of this section is therefore written from the
  specification, and says so. Nothing outside this section depends on it.
\<close>

text \<open>
  Modelled from the spec: the lookups of the topology that the missing body of \<^verbatim>\<open>eval\<close>
  needs from the missing class \<^verbatim>\<open>RecurrentStructure\<close>. By the data model of the
  specification the topology gives, for each neuron \<open>k\<close> and each unit \<open>l\<close>, the weight of
  the connection from \<open>l\<close> into \<open>k\<close> (\<open>0\<close> if unconnected) and the parameter that owns this
  weight (\<open>None\<close> for a constant connection), and an activation function with its
  derivative. They are passed to the step next to the network.
\<close>

record Connections =
  weights :: "nat \<Rightarrow> nat \<Rightarrow> real"
  parameterIndex :: "nat \<Rightarrow> nat \<Rightarrow> nat option"
  activationFunction :: "real \<Rightarrow> real"
  activationDerivative :: "real \<Rightarrow> real"

text \<open>
  Modelled from the spec: the layout of the units, which \<^verbatim>\<open>RecurrentStructure\<close> would fix.
  The specification puts the inputs into the first slots of the activation and reads the
  outputs from a suffix (as \<^verbatim>\<open>setOutputActivation\<close> does in the header); the neurons are
  taken to be the last \<^verbatim>\<open>numberOfNeurons()\<close> units, so that neuron \<open>k\<close> is the unit below.
\<close>

definition neuronUnit :: "RecurrentStructure \<Rightarrow> nat \<Rightarrow> nat" where
  "neuronUnit structure k = numberOfUnits structure - numberOfNeurons structure + k"

text \<open>
  Modelled from the spec: a topology whose inputs and neurons are distinct units and whose
  outputs are neurons (``neuron count (a subset of units)'', outputs ``a fixed-size
  suffix''). \<^verbatim>\<open>RecurrentStructure\<close>, which would guarantee it, is missing.
\<close>

definition structureFits :: "RecurrentStructure \<Rightarrow> bool" where
  "structureFits structure \<longleftrightarrow>
     inputs structure + numberOfNeurons structure \<le> numberOfUnits structure
     \<and> outputs structure \<le> numberOfNeurons structure"

text \<open>
  Modelled from the spec: the invariant of an evaluation state (``\<open>activation\<close> and
  \<open>previousActivation\<close> always have length \<open>numberOfUnits\<close>; \<open>sensitivity\<close> \<dots> has exactly
  \<open>numberOfParameters \<times> numberOfNeurons\<close> entries''), which the missing bodies rely on
  for a state ``created for the same topology''.
\<close>

definition stateFits :: "OnlineRNNet \<Rightarrow> InternalState \<Rightarrow> bool" where
  "stateFits net s \<longleftrightarrow>
     length (activation s) = numberOfUnits (mpe_structure net)
     \<and> length (lastActivation s) = numberOfUnits (mpe_structure net)
     \<and> length (unitGradient s) = parameters (mpe_structure net)
     \<and> list_all (\<lambda>row. length row = numberOfNeurons (mpe_structure net)) (unitGradient s)"

subsection \<open>Gradient contraction\<close>

text \<open>
  Modelled from the spec: the product of two vectors that the missing body of
  \<^verbatim>\<open>weightedParameterDerivative\<close> forms for every parameter (``contracting'').
\<close>

definition innerProduct :: "RealVector \<Rightarrow> RealVector \<Rightarrow> real" where
  "innerProduct xs ys = sum_list (map2 (*) xs ys)"

text \<open>
  Modelled from the spec: the entries of one row of the gradient matrix that belong to the
  output neurons, the last \<^verbatim>\<open>outputSize()\<close> neurons; part of the missing body of
  \<^verbatim>\<open>weightedParameterDerivative\<close>.
\<close>

definition outputColumns :: "OnlineRNNet \<Rightarrow> RealVector \<Rightarrow> RealVector" where
  "outputColumns net row = drop (numberOfNeurons (mpe_structure net) - outputSize net) row"

text \<open>
  Modelled from the spec: when a state holds the sensitivity tensor that the missing body
  of \<^verbatim>\<open>weightedParameterDerivative\<close> contracts. The specification has the tensor, ``when
  present'', have ``exactly \<open>numberOfParameters \<times> numberOfNeurons\<close> entries''; a gradient
  matrix of any other shape is no tensor allocated for this topology.
\<close>

definition sensitivityAllocated :: "OnlineRNNet \<Rightarrow> InternalState \<Rightarrow> bool" where
  "sensitivityAllocated net s \<longleftrightarrow>
     length (unitGradient s) = parameters (mpe_structure net)
     \<and> list_all (\<lambda>row. length row = numberOfNeurons (mpe_structure net)) (unitGradient s)"

text \<open>
  Modelled from the spec: the body of \<^verbatim>\<open>OnlineRNNet::weightedParameterDerivative\<close>, which
  the header only declares. By the specification it ``fails if \<open>sensitivity\<close> was never
  allocated'', with a configuration error that is distinguishable from a shape error; it
  fails with a shape error when the coefficients are not one row of \<^verbatim>\<open>outputSize()\<close>
  entries; otherwise \<open>gradient[p] = \<Sum>\<^sub>k coefficients[k] \<cdot> sensitivity[p][k]\<close> over the output
  neurons. It decides on the state it is given: neither the specification nor the header
  has it read \<^verbatim>\<open>m_computeGradient\<close>. The specification's contract has no pattern; the
  argument of the header is not read.
\<close>

definition weightedParameterDerivative ::
  "OnlineRNNet \<Rightarrow> RealMatrix \<Rightarrow> RealMatrix \<Rightarrow> InternalState \<Rightarrow> error + RealVector" where
  "weightedParameterDerivative net pattern coefficients s =
     (if \<not> sensitivityAllocated net s then Inl NoGradientTracking
      else case coefficients of
        [c] \<Rightarrow>
          if length c = outputSize net \<and> structureFits (mpe_structure net)
          then Inr (map (\<lambda>row. innerProduct c (outputColumns net row)) (unitGradient s))
          else Inl SizeMismatch
      | _ \<Rightarrow> Inl SizeMismatch)"

subsection \<open>One time step\<close>

text \<open>
  Modelled from the spec: the values that flow over the connections in one step of the
  missing body of \<^verbatim>\<open>eval\<close>. The input vector is copied into the input slots; every other
  unit is read as the state holds it when the step begins, that is, from the previous
  step (the network is fully recurrent: a neuron reads the neurons' previous outputs).
\<close>

definition sourceValues :: "OnlineRNNet \<Rightarrow> RealVector \<Rightarrow> InternalState \<Rightarrow> RealVector" where
  "sourceValues net x s = x @ drop (inputSize net) (activation s)"

text \<open>
  Modelled from the spec: the pre-activation of neuron \<open>k\<close> in the missing body of \<^verbatim>\<open>eval\<close>,
  ``the weighted sum over all units'' with the weights of the topology.
\<close>

definition preActivation :: "RecurrentStructure \<Rightarrow> Connections \<Rightarrow> RealVector \<Rightarrow> nat \<Rightarrow> real" where
  "preActivation structure connections source k =
     sum_list (map (\<lambda>l. weights connections k l * source ! l) [0..<numberOfUnits structure])"

text \<open>
  Modelled from the spec: the direct term of the sensitivity update in the missing body of
  \<^verbatim>\<open>eval\<close>: the value flowing over every connection into neuron \<open>k\<close> whose weight is
  parameter \<open>p\<close>.
\<close>

definition directTerm ::
  "RecurrentStructure \<Rightarrow> Connections \<Rightarrow> RealVector \<Rightarrow> nat \<Rightarrow> nat \<Rightarrow> real" where
  "directTerm structure connections source p k =
     sum_list (map (\<lambda>l. if parameterIndex connections k l = Some p then source ! l else 0)
                   [0..<numberOfUnits structure])"

text \<open>
  Modelled from the spec: the propagated term of the sensitivity update in the missing body
  of \<^verbatim>\<open>eval\<close>, computed on the stored row of parameter \<open>p\<close>, which has one entry per
  neuron: the weights from the neurons into neuron \<open>k\<close> times their stored sensitivities.
\<close>

definition propagated :: "RecurrentStructure \<Rightarrow> Connections \<Rightarrow> RealVector \<Rightarrow> nat \<Rightarrow> real" where
  "propagated structure connections row k =
     sum_list (map (\<lambda>j. weights connections k (neuronUnit structure j) * row ! j)
                   [0..<numberOfNeurons structure])"

text \<open>
  Modelled from the spec: the sensitivity of any source unit \<open>l\<close> to parameter \<open>p\<close>, as the
  recurrence of the specification reads it; the tensor of the missing \<^verbatim>\<open>eval\<close> stores it
  for the neurons, and an input or bias unit depends on no parameter.
\<close>

definition unitSensitivity :: "RecurrentStructure \<Rightarrow> RealMatrix \<Rightarrow> nat \<Rightarrow> nat \<Rightarrow> real" where
  "unitSensitivity structure gradient p l =
     (if numberOfUnits structure - numberOfNeurons structure \<le> l
      then gradient ! p ! (l - (numberOfUnits structure - numberOfNeurons structure))
      else 0)"

text \<open>
  Modelled from the spec: the update of the whole gradient matrix in the missing body of
  \<^verbatim>\<open>eval\<close>, ``for every (parameter, neuron) pair'', from the matrix of the previous step.
\<close>

definition updateUnitGradient ::
  "RecurrentStructure \<Rightarrow> Connections \<Rightarrow> RealVector \<Rightarrow> RealMatrix \<Rightarrow> RealMatrix" where
  "updateUnitGradient structure connections source gradient =
     map (\<lambda>p. map (\<lambda>k. activationDerivative connections
                            (preActivation structure connections source k)
                          * (propagated structure connections (gradient ! p) k
                             + directTerm structure connections source p k))
                   [0..<numberOfNeurons structure])
         [0..<parameters structure]"

text \<open>
  Modelled from the spec: the body of \<^verbatim>\<open>OnlineRNNet::eval\<close> with a state, which the header
  only declares; the lookups of the topology are its first argument. The pattern is a batch of one input vector of \<^verbatim>\<open>inputSize()\<close> entries and
  the state fits the topology, or the call fails with a shape error and changes nothing.
  Otherwise the current activation becomes the previous one, the input is copied in, every
  neuron gets the activation function of its pre-activation, the outputs are the last
  \<^verbatim>\<open>outputSize()\<close> units, and the gradient matrix is updated if gradients were requested.
\<close>

definition eval ::
  "Connections \<Rightarrow> OnlineRNNet \<Rightarrow> RealMatrix \<Rightarrow> InternalState
     \<Rightarrow> error + RealMatrix \<times> InternalState" where
  "eval connections net pattern s =
     (case pattern of
        [x] \<Rightarrow>
          if length x = inputSize net \<and> structureFits (mpe_structure net) \<and> stateFits net s
          then
            let structure = mpe_structure net;
                source = sourceValues net x s;
                current = take (numberOfUnits structure - numberOfNeurons structure) source
                          @ map (\<lambda>k. activationFunction connections
                                        (preActivation structure connections source k))
                                [0..<numberOfNeurons structure];
                gradient = (if m_computeGradient net
                            then updateUnitGradient structure connections source (unitGradient s)
                            else unitGradient s)
            in Inr ([drop (numberOfUnits structure - outputSize net) current],
                    \<lparr> activation = current, lastActivation = activation s, unitGradient = gradient \<rparr>)
          else Inl SizeMismatch
      | _ \<Rightarrow> Inl SizeMismatch)"

section \<open>A small network\<close>

text \<open>
  One input (unit 0), the bias unit (unit 1) and two neurons (units 2 and 3), the last of
  which is the output; three parameters. The network over it with and without gradient
  computation.
\<close>

definition smallStructure :: RecurrentStructure where
  "smallStructure =
     \<lparr> inputs = 1, outputs = 1, numberOfNeurons = 2, numberOfUnits = 4, parameters = 3 \<rparr>"

definition smallNet :: "bool \<Rightarrow> OnlineRNNet" where
  "smallNet computeGradient =
     \<lparr> mpe_structure = smallStructure, m_computeGradient = computeGradient \<rparr>"

text \<open>
  Connections for the small network: the first neuron reads the input with weight \<open>1\<close>
  (parameter 0) and itself with weight \<open>1/2\<close> (parameter 1); the output neuron reads the
  first neuron with weight \<open>2\<close> (parameter 2). The activation function is the identity.
  Then the state after the input \<open>1\<close> has been fed to a fresh state.
\<close>

definition smallConnections :: Connections where
  "smallConnections =
     \<lparr> weights = (\<lambda>k l. if k = 0 \<and> l = 0 then 1 else if k = 0 \<and> l = 2 then 1 / 2
                      else if k = 1 \<and> l = 2 then 2 else 0),
       parameterIndex = (\<lambda>k l. if k = 0 \<and> l = 0 then Some 0 else if k = 0 \<and> l = 2 then Some 1
                      else if k = 1 \<and> l = 2 then Some 2 else None),
       activationFunction = (\<lambda>x. x),
       activationDerivative = (\<lambda>x. 1) \<rparr>"

definition afterFirstStep :: InternalState where
  "afterFirstStep =
     \<lparr> activation = [1, 0, 1, 0], lastActivation = [0, 0, 0, 0],
       unitGradient = [[1, 0], [0, 0], [0, 0]] \<rparr>"

section \<open>Evaluating the rounding\<close>

lemma findBinade_found:
  assumes "2 powi e \<le> x" and "x < 2 powi (e + 1)" and "e \<le> e0" and "e0 - int n \<le> e"
  shows "findBinade n e0 x = e"
  using assms
proof (induction n arbitrary: e0)
  case 0
  then show ?case by simp
next
  case (Suc n)
  show ?case
  proof (cases "2 powi e0 \<le> x")
    case True
    have "e0 = e"
    proof (rule ccontr)
      assume "e0 \<noteq> e"
      with Suc.prems have "e + 1 \<le> e0" by simp
      then have "(2::real) powi (e + 1) \<le> 2 powi e0"
        by (intro power_int_increasing) simp_all
      with True Suc.prems show False by simp
    qed
    with True show ?thesis by simp
  next
    case False
    with Suc.prems have "e \<noteq> e0" by auto
    with Suc.prems have "e \<le> e0 - 1" "e0 - 1 - int n \<le> e" by simp_all
    with Suc.IH [of "e0 - 1"] Suc.prems False show ?thesis by simp
  qed
qed

lemma findBinade_bottom:
  assumes "x < 2 powi (e0 - int n + 1)"
  shows "findBinade n e0 x = e0 - int n"
  using assms
proof (induction n arbitrary: e0)
  case 0
  then show ?case by simp
next
  case (Suc n)
  have "(2::real) powi (e0 - int (Suc n) + 1) \<le> 2 powi e0"
    by (intro power_int_increasing) simp_all
  with Suc.prems have "\<not> 2 powi e0 \<le> x" by simp
  moreover have "findBinade n (e0 - 1) x = e0 - 1 - int n"
    using Suc.prems by (intro Suc.IH) (simp add: algebra_simps)
  ultimately show ?case by simp
qed

lemma exponentOf_normal:
  assumes "2 powi e \<le> \<bar>r\<bar>" and "\<bar>r\<bar> < 2 powi (e + 1)" and "- 1022 \<le> e" and "e \<le> 1023"
  shows "exponentOf r = e"
  unfolding exponentOf_def using assms by (intro findBinade_found) simp_all

lemma exponentOf_subnormal:
  assumes "\<bar>r\<bar> < 2 powi (- 1022)"
  shows "exponentOf r = - 1022"
proof -
  have "findBinade 2045 1023 \<bar>r\<bar> = 1023 - int 2045"
    using assms by (intro findBinade_bottom) simp
  then show ?thesis by (simp add: exponentOf_def)
qed

lemma roundToDouble_normal:
  assumes "2 powi e \<le> \<bar>r\<bar>" and "\<bar>r\<bar> < 2 powi (e + 1)" and "- 1022 \<le> e" and "e \<le> 1023"
  shows "roundToDouble r =
     (let q = 2 powi (e - 52);
          v = of_int (roundHalfEven (r / q)) * q
      in if 2 powi 1024 \<le> v then PlusInfinity
         else if v \<le> - (2 powi 1024) then MinusInfinity
         else Finite v)"
  unfolding roundToDouble_def exponentOf_normal [OF assms] ..

lemma roundToDouble_0: "roundToDouble 0 = Finite 0"
proof -
  have "exponentOf 0 = - 1022" by (intro exponentOf_subnormal) simp
  then show ?thesis by (simp add: roundToDouble_def roundHalfEven_def)
qed

lemma roundToDouble_small_integers:
  "roundToDouble 1 = Finite 1" "roundToDouble 2 = Finite 2" "roundToDouble 3 = Finite 3"
  "roundToDouble 5 = Finite 5" "roundToDouble (- 1) = Finite (- 1)"
  using roundToDouble_normal [of 0 1] roundToDouble_normal [of 1 2] roundToDouble_normal [of 1 3]
    roundToDouble_normal [of 2 5] roundToDouble_normal [of 0 "- 1"]
  by (simp_all add: roundHalfEven_def Let_def)

lemma roundToDouble_tiny_weight:
  "roundToDouble (1 / 2 ^ 60) = Finite (1 / 2 ^ 60)"
  "roundToDouble (1 + 1 / 2 ^ 60) = Finite 1"
  using roundToDouble_normal [of "- 60" "1 / 2 ^ 60"] roundToDouble_normal [of 0 "1 + 1 / 2 ^ 60"]
  by (simp_all add: roundHalfEven_def Let_def)

lemma exponentOf_top:
  assumes "2 powi 1023 \<le> \<bar>r\<bar>"
  shows "exponentOf r = 1023"
proof -
  have fuel: "(2045::nat) = Suc 2044"
    by simp
  have "findBinade (Suc 2044) 1023 \<bar>r\<bar> = 1023"
    using assms by (simp only: findBinade.simps if_True)
  then show ?thesis
    unfolding exponentOf_def fuel .
qed

text \<open>The largest finite double added to itself overflows.\<close>

lemma double_plus_overflow:
  "double_plus (Finite (2 ^ 1024 - 2 ^ 971)) (Finite (2 ^ 1024 - 2 ^ 971)) = PlusInfinity"
proof -
  have "exponentOf (2 ^ 1024 - 2 ^ 971 + (2 ^ 1024 - 2 ^ 971)) = 1023"
    by (intro exponentOf_top) simp
  then show ?thesis
    by (simp add: roundToDouble_def roundHalfEven_def Let_def)
qed

lemma double_less_eq_zero: "double_less_eq weight (Finite 0) \<Longrightarrow> \<not> double_less (Finite 0) weight"
  by (cases weight) (auto simp: double_less_eq_def)

section \<open>Sums over lists and index ranges\<close>

lemma sum_list_upt: "sum_list (map f [0..<n]) = (\<Sum>i<n. f i)"
  by (simp add: interv_sum_list_conv_sum_set_nat atLeast0LessThan)

lemma innerProduct_sum:
  assumes "length xs = length ys"
  shows "innerProduct xs ys = (\<Sum>k<length xs. xs ! k * ys ! k)"
proof -
  have "innerProduct xs ys = (\<Sum>k = 0..<length (map2 (*) xs ys). map2 (*) xs ys ! k)"
    unfolding innerProduct_def by (rule sum_list_sum_nth)
  also have "\<dots> = (\<Sum>k<length xs. map2 (*) xs ys ! k)"
    using assms by (simp add: atLeast0LessThan)
  also have "\<dots> = (\<Sum>k<length xs. xs ! k * ys ! k)"
    using assms by (intro sum.cong) simp_all
  finally show ?thesis .
qed

lemma sum_over_units:
  fixes w :: "nat \<Rightarrow> real"
  assumes "N \<le> U"
  shows "(\<Sum>l<U. w l * (if U - N \<le> l then row ! (l - (U - N)) else 0))
         = (\<Sum>j<N. w (U - N + j) * row ! j)"
proof -
  let ?g = "\<lambda>l. w l * (if U - N \<le> l then row ! (l - (U - N)) else 0)"
  have split: "(\<Sum>l = 0..<U. ?g l) = (\<Sum>l = 0..<U - N. ?g l) + (\<Sum>l = U - N..<U. ?g l)"
    by (rule sum.atLeastLessThan_concat [symmetric]) simp_all
  have below: "(\<Sum>l = 0..<U - N. ?g l) = 0"
    by simp
  have shift: "(\<Sum>l = 0 + (U - N)..<N + (U - N). ?g l) = (\<Sum>j = 0..<N. ?g (j + (U - N)))"
    by (rule sum.shift_bounds_nat_ivl)
  have bounds: "0 + (U - N) = U - N" "N + (U - N) = U"
    using assms by simp_all
  have inner: "?g (j + (U - N)) = w (U - N + j) * row ! j" for j
    by (simp add: add.commute)
  from shift have above: "(\<Sum>l = U - N..<U. ?g l) = (\<Sum>j = 0..<N. w (U - N + j) * row ! j)"
    unfolding bounds inner .
  show ?thesis
    unfolding lessThan_atLeast0 split below above by simp
qed

lemma smallNet_simps:
  "mpe_structure (smallNet g) = smallStructure" "m_computeGradient (smallNet g) = g"
  "inputSize (smallNet g) = 1" "outputSize (smallNet g) = 1" "numberOfParameters (smallNet g) = 3"
  "numberOfUnits smallStructure = 4" "numberOfNeurons smallStructure = 2"
  "parameters smallStructure = 3" "structureFits smallStructure"
  by (simp_all add: smallNet_def smallStructure_def inputSize_def outputSize_def
      numberOfParameters_def structureFits_def)

section \<open>Creating a state\<close>

text \<open>\<^verbatim>\<open>createState\<close> does not depend on \<^verbatim>\<open>m_computeGradient\<close>.\<close>

lemma createState_computeGradient:
  "createState (net\<lparr>m_computeGradient := computeGradient\<rparr>) = createState net"
  by (simp add: createState_def)

text \<open>
  Claim C7. A state that \<^verbatim>\<open>createState\<close> has just returned holds an activation and a
  previous activation of \<^verbatim>\<open>numberOfUnits()\<close> entries, all zero, and a gradient matrix of
  \<^verbatim>\<open>parameters()\<close> rows and \<^verbatim>\<open>numberOfNeurons()\<close> columns, all zero.
\<close>

theorem createState_fresh:
  "length (activation (createState net)) = numberOfUnits (mpe_structure net)
   \<and> (\<forall>i < numberOfUnits (mpe_structure net). activation (createState net) ! i = 0)
   \<and> length (lastActivation (createState net)) = numberOfUnits (mpe_structure net)
   \<and> (\<forall>i < numberOfUnits (mpe_structure net). lastActivation (createState net) ! i = 0)
   \<and> length (unitGradient (createState net)) = parameters (mpe_structure net)
   \<and> (\<forall>p < parameters (mpe_structure net).
         length (unitGradient (createState net) ! p) = numberOfNeurons (mpe_structure net)
         \<and> (\<forall>k < numberOfNeurons (mpe_structure net). unitGradient (createState net) ! p ! k = 0))"
  by (simp add: createState_def InternalState_ctor_def zeroVector_def zeroMatrix_def)

theorem createState_fresh_witness:
  "length (activation (createState (smallNet True))) = 4
   \<and> activation (createState (smallNet True)) ! 3 = 0
   \<and> length (lastActivation (createState (smallNet True))) = 4
   \<and> lastActivation (createState (smallNet True)) ! 0 = 0
   \<and> length (unitGradient (createState (smallNet True))) = 3
   \<and> length (unitGradient (createState (smallNet True)) ! 2) = 2
   \<and> unitGradient (createState (smallNet True)) ! 2 ! 1 = 0"
proof -
  have units: "numberOfUnits (mpe_structure (smallNet True)) = 4"
    and params: "parameters (mpe_structure (smallNet True)) = 3"
    and neurons: "numberOfNeurons (mpe_structure (smallNet True)) = 2"
    by (simp_all add: smallNet_def smallStructure_def)
  from createState_fresh [of "smallNet True"] show ?thesis
    unfolding units params neurons by simp
qed

text \<open>
  Claim C3. The claim has a network without gradient computation create states without
  the gradient matrix. \<^verbatim>\<open>createState\<close> never reads \<^verbatim>\<open>m_computeGradient\<close>: for the small
  network with the flag off the state holds the full matrix of 3 by 2 zeros, and it is
  the state the network with the flag on creates.
\<close>

theorem createState_ignores_computeGradient:
  "m_computeGradient (smallNet False) = False
   \<and> unitGradient (createState (smallNet False)) = [[0, 0], [0, 0], [0, 0]]
   \<and> createState (smallNet False) = createState (smallNet True)"
  by (simp add: createState_def InternalState_ctor_def zeroVector_def zeroMatrix_def
      smallNet_def smallStructure_def numeral_eq_Suc)

section \<open>Evaluation without a state\<close>

text \<open>
  Claim C6. Whatever the pattern (and whatever output matrix is passed), the overload of
  \<^verbatim>\<open>eval\<close> that takes no state throws an exception and yields no output.
\<close>

theorem eval_without_state_throws:
  "(\<exists>message. eval_without_state net pattern output = Inl (Exception message))
   \<and> (\<forall>result. eval_without_state net pattern output \<noteq> Inr result)"
  by (simp add: eval_without_state_def)

section \<open>Teacher forcing\<close>

text \<open>
  Claim C5. For a structure whose outputs are among its units and a vector of
  \<^verbatim>\<open>outputSize()\<close> entries, \<^verbatim>\<open>setOutputActivation\<close> returns, and in the state it leaves
  the previous activation and the gradient matrix are the old ones, every entry of the
  activation below the last \<^verbatim>\<open>outputSize()\<close> units is the old one, and the last
  \<^verbatim>\<open>outputSize()\<close> units hold the given vector.
\<close>

theorem setOutputActivation_frame:
  assumes units: "outputs (mpe_structure net) \<le> numberOfUnits (mpe_structure net)"
      and len: "length act = outputSize net"
  shows "\<exists>s'. setOutputActivation net s act = Inr s'
           \<and> lastActivation s' = lastActivation s
           \<and> unitGradient s' = unitGradient s
           \<and> length (activation s') = numberOfUnits (mpe_structure net)
           \<and> (\<forall>i. i < numberOfUnits (mpe_structure net) - outputSize net
                  \<longrightarrow> i < length (activation s)
                  \<longrightarrow> activation s' ! i = activation s ! i)
           \<and> (\<forall>j < outputSize net.
                  activation s' ! (numberOfUnits (mpe_structure net) - outputSize net + j) = act ! j)"
proof -
  let ?n = "numberOfUnits (mpe_structure net)"
  let ?o = "outputSize net"
  let ?r = "resize (activation s) ?n"
  have o_le: "?o \<le> ?n" using units by (simp add: outputSize_def)
  have start: "size_t_minus ?n ?o = ?n - ?o" using o_le by (simp add: size_t_minus_def)
  have len_r: "length ?r = ?n" by (simp add: resize_def)
  have assign: "assign_subrange ?r (?n - ?o) ?n act = Inr (take (?n - ?o) ?r @ act @ drop ?n ?r)"
    using len len_r o_le by (simp add: assign_subrange_def)
  let ?a = "take (?n - ?o) ?r @ act @ drop ?n ?r"
  have res: "setOutputActivation net s act = Inr (s\<lparr>activation := ?a\<rparr>)"
    by (simp add: setOutputActivation_def Let_def start assign)
  have len_a: "length ?a = ?n" using len len_r o_le by simp
  have keep: "\<forall>i. i < ?n - ?o \<longrightarrow> i < length (activation s) \<longrightarrow> ?a ! i = activation s ! i"
    using len_r by (simp add: nth_append resize_def)
  have put: "\<forall>j < ?o. ?a ! (?n - ?o + j) = act ! j"
  proof (intro allI impI)
    fix j assume j: "j < ?o"
    have "length (take (?n - ?o) ?r) = ?n - ?o" using len_r by simp
    then have "?a ! (?n - ?o + j) = (act @ drop ?n ?r) ! j"
      by (metis nth_append_length_plus)
    then show "?a ! (?n - ?o + j) = act ! j" using j len by (simp add: nth_append)
  qed
  show ?thesis using res len_a keep put by simp
qed

theorem setOutputActivation_frame_witness:
  "\<exists>s'. setOutputActivation (smallNet True)
            \<lparr> activation = [1, 2, 3, 4], lastActivation = [5, 6, 7, 8],
              unitGradient = [[1, 2], [3, 4], [5, 6]] \<rparr> [9] = Inr s'
        \<and> lastActivation s' = [5, 6, 7, 8]
        \<and> unitGradient s' = [[1, 2], [3, 4], [5, 6]]
        \<and> length (activation s') = 4
        \<and> activation s' ! 0 = 1 \<and> activation s' ! 1 = 2 \<and> activation s' ! 2 = 3
        \<and> activation s' ! 3 = 9"
proof -
  let ?s = "\<lparr> activation = [1, 2, 3, 4], lastActivation = [5, 6, 7, 8],
       unitGradient = [[1::real, 2], [3, 4], [5, 6]] \<rparr>"
  have units: "outputs (mpe_structure (smallNet True)) \<le> numberOfUnits (mpe_structure (smallNet True))"
    by (simp add: smallNet_def smallStructure_def)
  have len: "length [9::real] = outputSize (smallNet True)"
    by (simp add: outputSize_def smallNet_def smallStructure_def)
  have n: "numberOfUnits (mpe_structure (smallNet True)) = 4"
    and out: "outputSize (smallNet True) = 1"
    by (simp_all add: outputSize_def smallNet_def smallStructure_def)
  from setOutputActivation_frame [OF units len, of ?s]
  obtain s' where call: "setOutputActivation (smallNet True) ?s [9] = Inr s'"
    and last: "lastActivation s' = lastActivation ?s"
    and grad: "unitGradient s' = unitGradient ?s"
    and size: "length (activation s') = 4"
    and keep: "\<forall>i. i < 3 \<longrightarrow> i < length (activation ?s) \<longrightarrow> activation s' ! i = activation ?s ! i"
    and put: "\<forall>j < 1. activation s' ! (3 + j) = [9] ! j"
    unfolding n out by auto
  have "activation s' ! 0 = 1" "activation s' ! 1 = 2" "activation s' ! 2 = 3"
    using keep by simp_all
  moreover have "activation s' ! 3 = 9" using put by simp
  ultimately show ?thesis using call last grad size by simp
qed

section \<open>The weight sum of MeanModel\<close>

text \<open>
  Claim C10, as amended. \<^verbatim>\<open>addModel\<close> throws for every weight that is less than or equal
  to zero and then leaves the models, the weights and the weight sum as they were; for a
  positive weight it returns with exactly one model and one weight appended and the
  weight sum replaced by the double sum of the old weight sum and the weight, that is,
  their exact sum rounded to a double: the weight sum increases by exactly the weight
  whenever that exact sum is a double.
\<close>

theorem addModel_checks_weight:
  "(double_less_eq weight (Finite 0) \<longrightarrow>
      addModel mm model weight = (Thrown (Exception ''Weights must be positive''), mm))
   \<and> (double_less (Finite 0) weight \<longrightarrow>
      (\<exists>mm'. addModel mm model weight = (Returned, mm')
         \<and> m_models mm' = m_models mm @ [model]
         \<and> m_weight mm' = m_weight mm @ [weight]
         \<and> m_weightSum mm' = double_plus (m_weightSum mm) weight
         \<and> numberOfModels mm' = numberOfModels mm + 1
         \<and> (\<forall>x w. m_weightSum mm = Finite x \<longrightarrow> weight = Finite w \<longrightarrow> isDouble (x + w)
               \<longrightarrow> m_weightSum mm' = Finite (x + w))))"
  by (auto simp: addModel_def numberOfModels_def isDouble_def dest: double_less_eq_zero)

theorem addModel_checks_weight_witness:
  "addModel \<lparr> m_models = [0::nat], m_weight = [Finite 1], m_weightSum = Finite 1 \<rparr> 7 (Finite (- 1))
     = (Thrown (Exception ''Weights must be positive''),
        \<lparr> m_models = [0], m_weight = [Finite 1], m_weightSum = Finite 1 \<rparr>)
   \<and> addModel \<lparr> m_models = [0::nat], m_weight = [Finite 1], m_weightSum = Finite 1 \<rparr> 7 (Finite 0)
     = (Thrown (Exception ''Weights must be positive''),
        \<lparr> m_models = [0], m_weight = [Finite 1], m_weightSum = Finite 1 \<rparr>)
   \<and> fst (addModel \<lparr> m_models = [0::nat], m_weight = [Finite 1], m_weightSum = Finite 1 \<rparr> 7 (Finite 2))
     = Returned
   \<and> m_models (snd (addModel \<lparr> m_models = [0::nat], m_weight = [Finite 1], m_weightSum = Finite 1 \<rparr> 7
        (Finite 2))) = [0, 7]
   \<and> m_weight (snd (addModel \<lparr> m_models = [0::nat], m_weight = [Finite 1], m_weightSum = Finite 1 \<rparr> 7
        (Finite 2))) = [Finite 1, Finite 2]
   \<and> m_weightSum (snd (addModel \<lparr> m_models = [0::nat], m_weight = [Finite 1], m_weightSum = Finite 1 \<rparr> 7
        (Finite 2))) = Finite 3"
proof -
  let ?mm = "\<lparr> m_models = [0::nat], m_weight = [Finite 1], m_weightSum = Finite 1 \<rparr>"
  have neg: "addModel ?mm 7 (Finite (- 1)) = (Thrown (Exception ''Weights must be positive''), ?mm)"
    using addModel_checks_weight [of "Finite (- 1)" ?mm 7] by (simp add: double_less_eq_def)
  have zero: "addModel ?mm 7 (Finite 0) = (Thrown (Exception ''Weights must be positive''), ?mm)"
    using addModel_checks_weight [of "Finite 0" ?mm 7] by (simp add: double_less_eq_def)
  have exact: "isDouble (1 + 2)"
    by (simp add: isDouble_def roundToDouble_small_integers)
  from addModel_checks_weight [of "Finite 2" ?mm 7]
  obtain mm' where "addModel ?mm 7 (Finite 2) = (Returned, mm')" "m_models mm' = [0, 7]"
    "m_weight mm' = [Finite 1, Finite 2]"
    "\<forall>x w. m_weightSum ?mm = Finite x \<longrightarrow> Finite 2 = Finite w \<longrightarrow> isDouble (x + w)
        \<longrightarrow> m_weightSum mm' = Finite (x + w)"
    by auto
  moreover from this exact have "m_weightSum mm' = Finite 3"
    by simp
  ultimately show ?thesis using neg zero by simp
qed

text \<open>
  Claim C10 as stated has the weight sum increase by exactly the weight for every positive
  weight. At the weight sum \<open>1\<close> and the positive weight \<open>2\<^sup>-\<^sup>6\<^sup>0\<close>, both doubles, \<^verbatim>\<open>addModel\<close>
  returns and the weight sum is still \<open>1\<close>.
\<close>

theorem addModel_rounds_weightSum:
  "isDouble 1 \<and> isDouble (1 / 2 ^ 60) \<and> double_less (Finite 0) (Finite (1 / 2 ^ 60))
   \<and> fst (addModel \<lparr> m_models = [0::nat], m_weight = [Finite 1], m_weightSum = Finite 1 \<rparr> 7
        (Finite (1 / 2 ^ 60))) = Returned
   \<and> m_weightSum (snd (addModel \<lparr> m_models = [0::nat], m_weight = [Finite 1], m_weightSum = Finite 1 \<rparr> 7
        (Finite (1 / 2 ^ 60)))) = Finite 1
   \<and> Finite 1 \<noteq> Finite (1 + 1 / 2 ^ 60)"
proof -
  let ?mm = "\<lparr> m_models = [0::nat], m_weight = [Finite 1], m_weightSum = Finite 1 \<rparr>"
  have positive: "double_less (Finite 0) (Finite (1 / 2 ^ 60))"
    by simp
  have sum: "double_plus (Finite 1) (Finite (1 / 2 ^ 60)) = Finite 1"
    by (simp only: double_plus.simps roundToDouble_tiny_weight)
  have call: "addModel ?mm 7 (Finite (1 / 2 ^ 60))
      = (Returned, \<lparr> m_models = [0, 7], m_weight = [Finite 1, Finite (1 / 2 ^ 60)],
                     m_weightSum = Finite 1 \<rparr>)"
    unfolding addModel_def using positive sum by simp
  have "isDouble 1" "isDouble (1 / 2 ^ 60)"
    unfolding isDouble_def by (rule roundToDouble_small_integers roundToDouble_tiny_weight)+
  moreover have "Finite 1 \<noteq> Finite (1 + 1 / 2 ^ 60)"
    by simp
  ultimately show ?thesis
    unfolding call using positive by simp
qed

text \<open>A weight that is NaN is not positive either: \<^verbatim>\<open>addModel\<close> throws.\<close>

lemma addModel_NaN:
  "addModel mm model NaN = (Thrown (Exception ''Weights must be positive''), mm)"
  by (simp add: addModel_def)

text \<open>
  The calls other than \<^verbatim>\<open>setWeight\<close> keep \<^verbatim>\<open>m_weightSum\<close> equal to the total of the
  weights, whether they return or throw.
\<close>

lemma weightTotal_append: "weightTotal (ws @ [w]) = double_plus (weightTotal ws) w"
  by (simp add: weightTotal_def)

lemma perform_keeps_weightSum:
  "\<not> isSetWeight c \<Longrightarrow> weightSumInvariant mm \<Longrightarrow> weightSumInvariant (snd (perform c mm))"
  by (cases c) (simp_all add: addModel_def clearModels_def weightSumInvariant_def weightTotal_def)

lemma performAll_keeps_weightSum:
  "\<forall>c \<in> set cs. \<not> isSetWeight c \<Longrightarrow> weightSumInvariant mm
     \<Longrightarrow> weightSumInvariant (performAll cs mm)"
  by (induction cs arbitrary: mm) (simp_all add: perform_keeps_weightSum)

text \<open>
  Claim C9. The claim has \<^verbatim>\<open>m_weightSum\<close> equal the sum of \<^verbatim>\<open>m_weight\<close> after any calls of
  \<^verbatim>\<open>addModel\<close>, \<^verbatim>\<open>setWeight\<close> and \<^verbatim>\<open>clearModels\<close>. \<^verbatim>\<open>setWeight\<close> assigns
  \<^verbatim>\<open>newWeight - m_weight[i]\<close> to the sum instead of adding it: after adding two models
  with the weights 1 and 2 and setting the first weight to 3 the weights are 3 and 2,
  their sum is 5, and \<^verbatim>\<open>m_weightSum\<close> is 2.
\<close>

theorem setWeight_overwrites_weightSum:
  "performAll [AddModel (0::nat) (Finite 1), AddModel 1 (Finite 2), SetWeight 0 (Finite 3)] MeanModel_ctor
     = \<lparr> m_models = [0, 1], m_weight = [Finite 3, Finite 2], m_weightSum = Finite 2 \<rparr>
   \<and> weightTotal (m_weight (performAll [AddModel (0::nat) (Finite 1), AddModel 1 (Finite 2),
        SetWeight 0 (Finite 3)] MeanModel_ctor)) = Finite 5
   \<and> \<not> weightSumInvariant (performAll [AddModel (0::nat) (Finite 1), AddModel 1 (Finite 2),
        SetWeight 0 (Finite 3)] MeanModel_ctor)"
  by (simp add: MeanModel_ctor_def addModel_def setWeight_def weightSumInvariant_def weightTotal_def
      double_minus_def roundToDouble_small_integers)

section \<open>States that fit the topology\<close>

text \<open>
  A fresh state fits the topology and a step that returns leaves a state that fits, so
  the shape hypotheses of the following theorems hold along every run that starts from
  \<^verbatim>\<open>createState\<close>. A step without gradient computation does not touch the gradient matrix.
\<close>

lemma createState_stateFits: "stateFits net (createState net)"
  by (simp add: stateFits_def createState_def InternalState_ctor_def zeroVector_def
      zeroMatrix_def list_all_length)

lemma eval_stateFits:
  assumes "eval connections net pattern s = Inr (out, s')"
  shows "stateFits net s'"
proof -
  from assms obtain x where pattern: "pattern = [x]"
    by (cases pattern rule: list.exhaust; cases "tl pattern") (auto simp: eval_def)
  from assms have ok: "length x = inputSize net" "structureFits (mpe_structure net)" "stateFits net s"
    unfolding pattern by (auto simp: eval_def split: if_splits)
  let ?U = "numberOfUnits (mpe_structure net)" and ?N = "numberOfNeurons (mpe_structure net)"
  have src: "length (sourceValues net x s) = ?U"
    using ok by (simp add: sourceValues_def structureFits_def stateFits_def inputSize_def)
  have N_le: "?N \<le> ?U"
    using ok by (simp add: structureFits_def)
  have rows: "list_all (\<lambda>row. length row = ?N)
                (updateUnitGradient (mpe_structure net) connections (sourceValues net x s)
                   (unitGradient s))"
    by (simp add: updateUnitGradient_def list_all_length)
  show ?thesis
    using assms ok src N_le rows unfolding pattern
    by (auto simp: eval_def Let_def stateFits_def updateUnitGradient_def split: if_splits)
qed

lemma eval_without_gradient:
  assumes "\<not> m_computeGradient net" and "eval connections net pattern s = Inr (out, s')"
  shows "unitGradient s' = unitGradient s"
proof -
  from assms(2) obtain x where pattern: "pattern = [x]"
    by (cases pattern rule: list.exhaust; cases "tl pattern") (auto simp: eval_def)
  from assms show ?thesis
    unfolding pattern by (auto simp: eval_def Let_def split: if_splits)
qed

section \<open>Gradient contraction\<close>

text \<open>
  Claim C2. With gradient computation on, for every state that fits the topology and
  every row of \<^verbatim>\<open>outputSize()\<close> coefficients, \<^verbatim>\<open>weightedParameterDerivative\<close> returns a
  vector of \<^verbatim>\<open>numberOfParameters()\<close> entries, and its entry for parameter \<open>p\<close> is the sum over
  the output neurons \<open>k\<close> of the coefficient of \<open>k\<close> times the stored sensitivity of \<open>k\<close> to
  \<open>p\<close>.
\<close>

theorem weightedParameterDerivative_contracts:
  assumes grad: "m_computeGradient net"
      and fits: "structureFits (mpe_structure net)"
      and state: "stateFits net s"
      and len: "length c = outputSize net"
  shows "\<exists>gradient. weightedParameterDerivative net pattern [c] s = Inr gradient
           \<and> length gradient = numberOfParameters net
           \<and> (\<forall>p < numberOfParameters net.
                 gradient ! p =
                   (\<Sum>k < outputSize net.
                      c ! k * unitGradient s ! p
                                ! (numberOfNeurons (mpe_structure net) - outputSize net + k)))"
proof -
  let ?N = "numberOfNeurons (mpe_structure net)"
  let ?g = "map (\<lambda>row. innerProduct c (outputColumns net row)) (unitGradient s)"
  have out: "outputSize net \<le> ?N"
    using fits by (simp add: structureFits_def outputSize_def)
  have rows: "length (unitGradient s) = numberOfParameters net"
    using state by (simp add: stateFits_def numberOfParameters_def)
  have cols: "\<And>p. p < numberOfParameters net \<Longrightarrow> length (unitGradient s ! p) = ?N"
    using state by (simp add: stateFits_def numberOfParameters_def list_all_length)
  have call: "weightedParameterDerivative net pattern [c] s = Inr ?g"
    using fits state len
    by (simp add: weightedParameterDerivative_def sensitivityAllocated_def stateFits_def)
  have entry: "?g ! p = (\<Sum>k < outputSize net. c ! k * unitGradient s ! p ! (?N - outputSize net + k))"
    if p: "p < numberOfParameters net" for p
  proof -
    let ?row = "unitGradient s ! p"
    have lr: "length (outputColumns net ?row) = outputSize net"
      using cols [OF p] out by (simp add: outputColumns_def)
    have "?g ! p = innerProduct c (outputColumns net ?row)"
      using p rows by simp
    also have "\<dots> = (\<Sum>k < length c. c ! k * outputColumns net ?row ! k)"
      using len lr by (intro innerProduct_sum) simp
    also have "\<dots> = (\<Sum>k < outputSize net. c ! k * ?row ! (?N - outputSize net + k))"
      unfolding len using cols [OF p] out by (intro sum.cong) (simp_all add: outputColumns_def)
    finally show ?thesis .
  qed
  show ?thesis using call rows entry by simp
qed

theorem weightedParameterDerivative_contracts_witness:
  "\<exists>gradient. weightedParameterDerivative (smallNet True) [[1]] [[3]]
                 \<lparr> activation = [1, 2, 3, 4], lastActivation = [5, 6, 7, 8],
                   unitGradient = [[1, 2], [3, 4], [5, 6]] \<rparr> = Inr gradient
      \<and> length gradient = 3
      \<and> gradient ! 0 = 6 \<and> gradient ! 1 = 12 \<and> gradient ! 2 = 18"
proof -
  let ?s = "\<lparr> activation = [1, 2, 3, 4], lastActivation = [5, 6, 7, 8],
              unitGradient = [[1::real, 2], [3, 4], [5, 6]] \<rparr>"
  have grad: "m_computeGradient (smallNet True)"
    and fits: "structureFits (mpe_structure (smallNet True))"
    and state: "stateFits (smallNet True) ?s"
    and len: "length [3::real] = outputSize (smallNet True)"
    by (simp_all add: stateFits_def smallNet_simps)
  from weightedParameterDerivative_contracts [OF grad fits state len, of "[[1]]"]
  obtain gradient where call: "weightedParameterDerivative (smallNet True) [[1]] [[3]] ?s = Inr gradient"
    and size: "length gradient = 3"
    and entry: "\<forall>p<3. gradient ! p = (\<Sum>k<1. [3] ! k * unitGradient ?s ! p ! (2 - 1 + k))"
    unfolding smallNet_simps by auto
  have "gradient ! 0 = 6" "gradient ! 1 = 12" "gradient ! 2 = 18"
    using entry by (simp_all add: numeral_eq_Suc less_Suc_eq all_conj_distrib)
  then show ?thesis using call size by simp
qed

text \<open>
  The contraction fails with the configuration error exactly on the states that hold no
  tensor of the topology's shape, whatever network is called with them.
\<close>

lemma weightedParameterDerivative_unallocated:
  "weightedParameterDerivative net pattern coefficients s = Inl NoGradientTracking
     \<longleftrightarrow> \<not> sensitivityAllocated net s"
  by (auto simp: weightedParameterDerivative_def split: list.splits)


section \<open>The sensitivity recurrence\<close>

text \<open>
  Claim C1. In a step with gradient computation on (an input vector of \<^verbatim>\<open>inputSize()\<close>
  entries, a state that fits the topology), \<^verbatim>\<open>eval\<close> returns, the new activation of every
  neuron \<open>k\<close> is the activation function of its pre-activation, and the new sensitivity of
  \<open>k\<close> to every parameter \<open>p\<close> is the derivative of the activation function at that
  pre-activation times the sum of two terms: the sum over the source units \<open>l\<close> of the
  weight from \<open>l\<close> into \<open>k\<close> times the sensitivity of \<open>l\<close> to \<open>p\<close> in the state before the
  step, and the value flowing over each connection into \<open>k\<close> whose weight is \<open>p\<close> (nothing
  for the other connections).
\<close>

theorem eval_updates_unitGradient:
  assumes grad: "m_computeGradient net"
      and fits: "structureFits (mpe_structure net)"
      and state: "stateFits net s"
      and len: "length x = inputSize net"
  shows "\<exists>output s'. eval connections net [x] s = Inr (output, s')
           \<and> (\<forall>k < numberOfNeurons (mpe_structure net).
                 activation s' ! neuronUnit (mpe_structure net) k =
                   activationFunction connections
                     (\<Sum>l < numberOfUnits (mpe_structure net).
                        weights connections k l * sourceValues net x s ! l))
           \<and> (\<forall>p < parameters (mpe_structure net). \<forall>k < numberOfNeurons (mpe_structure net).
                 unitGradient s' ! p ! k =
                   activationDerivative connections
                     (\<Sum>l < numberOfUnits (mpe_structure net).
                        weights connections k l * sourceValues net x s ! l)
                   * ((\<Sum>l < numberOfUnits (mpe_structure net).
                         weights connections k l * unitSensitivity (mpe_structure net) (unitGradient s) p l)
                      + (\<Sum>l < numberOfUnits (mpe_structure net).
                           if parameterIndex connections k l = Some p
                           then sourceValues net x s ! l else 0)))"
proof -
  let ?st = "mpe_structure net"
  let ?U = "numberOfUnits ?st" and ?N = "numberOfNeurons ?st"
  let ?src = "sourceValues net x s"
  let ?cur = "take (?U - ?N) ?src
              @ map (\<lambda>k. activationFunction connections (preActivation ?st connections ?src k)) [0..<?N]"
  let ?G = "updateUnitGradient ?st connections ?src (unitGradient s)"
  let ?s' = "\<lparr> activation = ?cur, lastActivation = activation s, unitGradient = ?G \<rparr>"
  have call: "eval connections net [x] s = Inr ([drop (?U - outputSize net) ?cur], ?s')"
    using grad fits state len by (simp add: eval_def Let_def)
  have len_src: "length ?src = ?U"
    using fits state len
    by (simp add: sourceValues_def structureFits_def stateFits_def inputSize_def)
  have N_le: "?N \<le> ?U" using fits by (simp add: structureFits_def)
  have act: "?cur ! neuronUnit ?st k = activationFunction connections (\<Sum>l < ?U. weights connections k l * ?src ! l)"
    if "k < ?N" for k
  proof -
    have "length (take (?U - ?N) ?src) = ?U - ?N" using len_src by simp
    then have "?cur ! (?U - ?N + k) =
        map (\<lambda>k. activationFunction connections (preActivation ?st connections ?src k)) [0..<?N] ! k"
      by (metis nth_append_length_plus)
    then show ?thesis using that by (simp add: neuronUnit_def preActivation_def sum_list_upt)
  qed
  have through: "(\<Sum>l < ?U. weights connections k l * unitSensitivity ?st (unitGradient s) p l)
                 = propagated ?st connections (unitGradient s ! p) k" for p k
    unfolding unitSensitivity_def propagated_def neuronUnit_def sum_list_upt
    using N_le by (rule sum_over_units)
  have grad_entry: "?G ! p ! k =
      activationDerivative connections (\<Sum>l < ?U. weights connections k l * ?src ! l)
      * ((\<Sum>l < ?U. weights connections k l * unitSensitivity ?st (unitGradient s) p l)
         + (\<Sum>l < ?U. if parameterIndex connections k l = Some p then ?src ! l else 0))"
    if "p < parameters ?st" "k < ?N" for p k
    unfolding through using that
    by (simp add: updateUnitGradient_def preActivation_def directTerm_def sum_list_upt)
  show ?thesis using call act grad_entry by simp
qed

theorem eval_updates_unitGradient_witness:
  "\<exists>output s'. eval smallConnections (smallNet True) [[0]] afterFirstStep = Inr (output, s')
      \<and> activation s' ! 2 = 1 / 2 \<and> activation s' ! 3 = 2
      \<and> unitGradient s' ! 0 ! 0 = 1 / 2 \<and> unitGradient s' ! 0 ! 1 = 2
      \<and> unitGradient s' ! 1 ! 0 = 1 \<and> unitGradient s' ! 1 ! 1 = 0
      \<and> unitGradient s' ! 2 ! 0 = 0 \<and> unitGradient s' ! 2 ! 1 = 1"
proof -
  have fits: "structureFits (mpe_structure (smallNet True))"
    by (simp add: smallNet_simps)
  have state: "stateFits (smallNet True) afterFirstStep"
    by (simp add: stateFits_def afterFirstStep_def smallNet_simps)
  have len: "length [0::real] = inputSize (smallNet True)"
    by (simp add: smallNet_simps)
  have src: "sourceValues (smallNet True) [0] afterFirstStep = [0, 0, 1, 0]"
    by (simp add: sourceValues_def afterFirstStep_def smallNet_simps)
  from eval_updates_unitGradient [of "smallNet True" afterFirstStep "[0]" smallConnections, OF _ fits state len]
  obtain out s' where call: "eval smallConnections (smallNet True) [[0]] afterFirstStep = Inr (out, s')"
    and act: "\<forall>k<2. activation s' ! neuronUnit smallStructure k =
                 activationFunction smallConnections (\<Sum>l<4. weights smallConnections k l * [0, 0, 1, 0] ! l)"
    and sens: "\<forall>p<3. \<forall>k<2. unitGradient s' ! p ! k =
                 activationDerivative smallConnections (\<Sum>l<4. weights smallConnections k l * [0, 0, 1, 0] ! l)
                 * ((\<Sum>l<4. weights smallConnections k l
                        * unitSensitivity smallStructure (unitGradient afterFirstStep) p l)
                    + (\<Sum>l<4. if parameterIndex smallConnections k l = Some p then [0, 0, 1, 0] ! l else 0))"
    unfolding smallNet_simps src by (auto simp: smallNet_simps)
  have "activation s' ! 2 = 1 / 2" "activation s' ! 3 = 2"
    using act
    by (simp_all add: neuronUnit_def smallStructure_def smallConnections_def numeral_eq_Suc
        less_Suc_eq all_conj_distrib)
  moreover have
    "unitGradient s' ! 0 ! 0 = 1 / 2" "unitGradient s' ! 0 ! 1 = 2"
    "unitGradient s' ! 1 ! 0 = 1" "unitGradient s' ! 1 ! 1 = 0"
    "unitGradient s' ! 2 ! 0 = 0" "unitGradient s' ! 2 ! 1 = 1"
    using sens
    by (simp_all add: unitSensitivity_def afterFirstStep_def smallStructure_def smallConnections_def
        numeral_eq_Suc less_Suc_eq all_conj_distrib)
  ultimately show ?thesis using call by simp
qed

end
